theory Spec2Isabelle
  imports Complex_Main "HOL-Library.Char_ord" "HOL-Library.List_Lexorder" "HOL-Library.Multiset"
begin

section \<open>Values and exceptions\<close>

text \<open>
  Parsed JSON as Python sees it: \<open>None\<close>, \<open>bool\<close>, \<open>int\<close>, \<open>str\<close>, \<open>list\<close> and
  \<open>dict\<close> (an association list in insertion order, its keys distinct). Fractional
  numbers are left out:
  no function modelled here computes with them. A Python \<open>str\<close> is a \<open>string\<close> of code
  points below 256.
\<close>

datatype json =
    JNull
  | JBool bool
  | JInt int
  | JStr string
  | JArr "json list"
  | JObj "(string \<times> json) list"

text \<open>
  The exceptions the code distinguishes in its \<open>except\<close> clauses: \<open>HTTPError\<close> with
  its status code, a \<open>URLError\<close> that is not an \<open>HTTPError\<close>, \<open>json.JSONDecodeError\<close>,
  and any other exception (\<open>AttributeError\<close>, \<open>TypeError\<close>, ...). Each carries its text
  (what \<open>str\<close> and \<open>repr\<close> show).
\<close>

datatype exn =
    HTTPError int string
  | URLError string
  | JSONDecodeError string
  | OtherError string

fun exn_text :: "exn \<Rightarrow> string" where
  "exn_text (HTTPError c m) = m"
| "exn_text (URLError m) = m"
| "exn_text (JSONDecodeError m) = m"
| "exn_text (OtherError m) = m"

text \<open>Python truthiness (\<open>bool(x)\<close>, \<open>x or y\<close>, \<open>if x\<close>).\<close>

fun truthy :: "json \<Rightarrow> bool" where
  "truthy JNull = False"
| "truthy (JBool b) = b"
| "truthy (JInt i) = (i \<noteq> 0)"
| "truthy (JStr s) = (s \<noteq> [])"
| "truthy (JArr xs) = (xs \<noteq> [])"
| "truthy (JObj kvs) = (kvs \<noteq> [])"

text \<open>\<open>x.get(k, d)\<close>: only a dict has \<open>get\<close>; anything else raises \<open>AttributeError\<close>.\<close>

fun dict_get :: "json \<Rightarrow> string \<Rightarrow> json \<Rightarrow> exn + json" where
  "dict_get (JObj kvs) k d = Inr (case map_of kvs k of Some v \<Rightarrow> v | None \<Rightarrow> d)"
| "dict_get _ k d = Inl (OtherError ''AttributeError'')"

text \<open>
  Iterating a value (\<open>for f in x\<close>, \<open>list(x)\<close>): a list gives its items, a dict its
  keys, a string its characters; \<open>None\<close>, a bool and an int raise \<open>TypeError\<close>.
\<close>

fun py_iter :: "json \<Rightarrow> exn + json list" where
  "py_iter (JArr xs) = Inr xs"
| "py_iter (JObj kvs) = Inr (map (\<lambda>kv. JStr (fst kv)) kvs)"
| "py_iter (JStr s) = Inr (map (\<lambda>c. JStr [c]) s)"
| "py_iter _ = Inl (OtherError ''TypeError'')"

text \<open>A list comprehension whose body may raise: the first exception ends it.\<close>

fun map_exn :: "('a \<Rightarrow> exn + 'b) \<Rightarrow> 'a list \<Rightarrow> exn + 'b list" where
  "map_exn f [] = Inr []"
| "map_exn f (x # xs) =
     (case f x of
        Inl e \<Rightarrow> Inl e
      | Inr y \<Rightarrow> (case map_exn f xs of Inl e \<Rightarrow> Inl e | Inr ys \<Rightarrow> Inr (y # ys)))"

section \<open>Resolved fields\<close>

record ResolvedFields =
  date :: string
  title :: string
  url :: string
  cpv :: string
  dept :: string
  buyer :: string
  description :: string
  ref :: string
  serviceCategory :: string
  nature :: string
  deadline :: string
  buyerAddress :: string
  budget :: string
  procedure :: string
  marketType :: string
  place :: string

text \<open>\<open>FIELD_CANDIDATES\<close>, one constant per key, in the order of the source.\<close>

definition cand_date :: "string list" where
  "cand_date = [''dateparution'', ''date_publication'', ''datepublication'', ''date'',
     ''publication_date'', ''record_timestamp'']"

definition cand_title :: "string list" where
  "cand_title = [''intitule'', ''objet'', ''titre'', ''title'', ''intitul'' @ [CHR 0xE9],
     ''objet_du_marche'']"

definition cand_url :: "string list" where
  "cand_url = [''url'', ''lien'', ''pageurl'', ''url_avis'', ''url_detail_avis'', ''avis_url'',
     ''link'', ''permalink'', ''permalien'', ''permalink_avis'', ''permalien_avis'']"

definition cand_cpv :: "string list" where
  "cand_cpv = [''cpv'', ''cpvs'', ''code_cpv'', ''codes_cpv'', ''cpv_principal'']"

definition cand_dept :: "string list" where
  "cand_dept = [''lieu_execution_code'', ''code_departement'', ''departement'', ''code_dept'',
     ''dept'', ''code_insee_departement'']"

definition cand_buyer :: "string list" where
  "cand_buyer = [''acheteur'', ''acheteur_nom'', ''acheteur_name'', ''organisme'',
     ''acheteur.principal'']"

definition cand_description :: "string list" where
  "cand_description = [''description'', ''objet'', ''objet_detail'', ''objetcomplet'', ''texte'']"

definition cand_ref :: "string list" where
  "cand_ref = [''reference'', ''r'' @ [CHR 0xE9] @ ''f'' @ [CHR 0xE9] @ ''rence'', ''numero'',
     ''num_avis'', ''identifiant'', ''no_avis'', ''num_annonce'', ''id'', ''recordid'']"

definition cand_serviceCategory :: "string list" where
  "cand_serviceCategory = [''categorie_services'', ''categorie_service'', ''categorie'',
     ''categorie_de_services'', ''category_service'', ''service_category'']"

definition cand_nature :: "string list" where
  "cand_nature = [''nature'', ''nature_avis'', ''type_avis'', ''type'', ''etat'', ''etat_avis'']"

definition cand_deadline :: "string list" where
  "cand_deadline = [''date_limite_remise_offres'', ''date_limite_de_reception_des_offres'',
     ''date_limite_offres'', ''date_reception_offres'', ''date_reponse'', ''date_limite'',
     ''date_depot_offre'', ''deadline'']"

definition cand_buyerAddress :: "string list" where
  "cand_buyerAddress = [''nom_et_adresse_officiels_de_l_organisme_acheteur'',
     ''nom_et_adresse_officiels_de_lorganisme_acheteur'', ''acheteur_adresse'',
     ''adresse_acheteur'', ''organisme_adresse'', ''acheteur_coordonnees'',
     ''coordonnees_acheteur'', ''adresse'']"

definition cand_budget :: "string list" where
  "cand_budget = [''montant'', ''montant_estime'', ''valeur'', ''budget'', ''amount'']"

definition cand_procedure :: "string list" where
  "cand_procedure = [''procedure'', ''type_procedure'', ''mode_de_passation'', ''procedure_type'']"

definition cand_marketType :: "string list" where
  "cand_marketType = [''type_marche'', ''type_du_marche'', ''type'']"

definition cand_place :: "string list" where
  "cand_place = [''lieu_execution'', ''lieu_execution_nom'', ''lieu_dexecution'',
     ''localisation'', ''ville'', ''commune'']"

text \<open>
  The body of the \<open>try\<close> in \<open>resolve_fields\<close>:
  \<open>[f.get("name", "") for f in (schema.get("dataset", {}).get("fields", []) or [])]\<close>.
\<close>

definition schema_names_try :: "json \<Rightarrow> exn + json list" where
  "schema_names_try schema =
     (case dict_get schema ''dataset'' (JObj []) of
        Inl e \<Rightarrow> Inl e
      | Inr d \<Rightarrow>
          (case dict_get d ''fields'' (JArr []) of
             Inl e \<Rightarrow> Inl e
           | Inr fs \<Rightarrow>
               (case py_iter (if truthy fs then fs else JArr []) of
                  Inl e \<Rightarrow> Inl e
                | Inr items \<Rightarrow> map_exn (\<lambda>f. dict_get f ''name'' (JStr [])) items)))"

text \<open>\<open>names\<close> after the \<open>try ... except Exception: names = []\<close>.\<close>

definition schema_names :: "json \<Rightarrow> json list" where
  "schema_names schema = (case schema_names_try schema of Inl e \<Rightarrow> [] | Inr ns \<Rightarrow> ns)"

text \<open>The inner function \<open>pick\<close>; \<open>c in names\<close> holds when some item equals the string \<open>c\<close>.\<close>

fun pick :: "json list \<Rightarrow> string list \<Rightarrow> string \<Rightarrow> string" where
  "pick names [] fallback = fallback"
| "pick names (c # cs) fallback =
     (if JStr c \<in> set names then c else pick names cs fallback)"

text \<open>
  \<open>resolve_fields\<close> returns a sum like every fallible function here; each of its raising
  operations sits inside the \<open>try\<close>, so the only value it builds is an \<open>Inr\<close>.
\<close>

definition resolve_fields :: "json \<Rightarrow> exn + ResolvedFields" where
  "resolve_fields schema =
     (let names = schema_names schema in
      Inr \<lparr> date = pick names cand_date ''record_timestamp'',
            title = pick names cand_title ''title'',
            url = pick names cand_url ''permalink'',
            cpv = pick names cand_cpv ''cpv'',
            dept = pick names cand_dept ''departement'',
            buyer = pick names cand_buyer ''acheteur'',
            description = pick names cand_description ''description'',
            ref = pick names cand_ref ''id'',
            serviceCategory = pick names cand_serviceCategory ''categorie_services'',
            nature = pick names cand_nature ''nature'',
            deadline = pick names cand_deadline ''date_limite_remise_offres'',
            buyerAddress = pick names cand_buyerAddress
              ''nom_et_adresse_officiels_de_l_organisme_acheteur'',
            budget = pick names cand_budget ''montant'',
            procedure = pick names cand_procedure ''procedure'',
            marketType = pick names cand_marketType ''type_marche'',
            place = pick names cand_place ''lieu_execution'' \<rparr>)"


text \<open>
  A catalog answer with the columns \<open>objet\<close> and \<open>dateparution\<close>, in that order.
\<close>

definition example_schema :: json where
  "example_schema = JObj [(''dataset'', JObj [(''fields'',
      JArr [JObj [(''name'', JStr ''objet'')], JObj [(''name'', JStr ''dateparution'')]])])]"





section \<open>Strings and URL encoding\<close>

text \<open>\<open>str.isspace\<close> on the code points below 256.\<close>

definition is_space :: "char \<Rightarrow> bool" where
  "is_space c = (c \<in> set [CHR 0x09, CHR 0x0A, CHR 0x0B, CHR 0x0C, CHR 0x0D, CHR 0x1C, CHR 0x1D,
     CHR 0x1E, CHR 0x1F, CHR 0x20, CHR 0x85, CHR 0xA0])"

text \<open>\<open>s.strip()\<close>.\<close>

definition strip :: "string \<Rightarrow> string" where
  "strip s = rev (dropWhile is_space (rev (dropWhile is_space s)))"

text \<open>\<open>s.rstrip("/")\<close>.\<close>

definition rstrip_slash :: "string \<Rightarrow> string" where
  "rstrip_slash s = rev (dropWhile (\<lambda>c. c = CHR ''/'') (rev s))"

text \<open>The single quote as a string, and \<open>s.replace("'", "''")\<close>: every single quote is doubled.\<close>

abbreviation (input) squote :: string where
  "squote \<equiv> [CHR 0x27]"

definition double_quotes :: "string \<Rightarrow> string" where
  "double_quotes s = concat (map (\<lambda>c. if c = CHR 0x27 then [c, c] else [c]) s)"

text \<open>\<open>sep.join(xs)\<close>.\<close>

fun join :: "string \<Rightarrow> string list \<Rightarrow> string" where
  "join sep [] = []"
| "join sep [x] = x"
| "join sep (x # y # ys) = x @ sep @ join sep (y # ys)"

text \<open>\<open>s.startswith(p)\<close>, \<open>s.endswith(p)\<close> and \<open>p in s\<close>.\<close>

fun startswith :: "string \<Rightarrow> string \<Rightarrow> bool" where
  "startswith s [] = True"
| "startswith [] (p # ps) = False"
| "startswith (c # cs) (p # ps) = (c = p \<and> startswith cs ps)"

definition endswith :: "string \<Rightarrow> string \<Rightarrow> bool" where
  "endswith s p = startswith (rev s) (rev p)"

fun contains :: "string \<Rightarrow> string \<Rightarrow> bool" where
  "contains [] p = (p = [])"
| "contains (c # cs) p = (startswith (c # cs) p \<or> contains cs p)"

text \<open>\<open>s.lower()\<close> on the ASCII letters.\<close>

definition lower_char :: "char \<Rightarrow> char" where
  "lower_char c =
     (case map_of (zip ''ABCDEFGHIJKLMNOPQRSTUVWXYZ'' ''abcdefghijklmnopqrstuvwxyz'') c of
        Some d \<Rightarrow> d
      | None \<Rightarrow> c)"

definition lower :: "string \<Rightarrow> string" where
  "lower s = map lower_char s"

text \<open>\<open>str(n)\<close> for an integer.\<close>

fun str_nat :: "nat \<Rightarrow> string" where
  "str_nat n =
     (if n < 10 then [''0123456789'' ! n]
      else str_nat (n div 10) @ [''0123456789'' ! (n mod 10)])"

declare str_nat.simps [simp del]

definition str_int :: "int \<Rightarrow> string" where
  "str_int i = (if i < 0 then CHR ''-'' # str_nat (nat (- i)) else str_nat (nat i))"

text \<open>
  \<open>urllib.parse.quote_plus\<close> with no extra safe characters: letters, digits and
  \<open>_.-~\<close> stay, a space becomes \<open>+\<close>, and every other character becomes the
  \<open>%XX\<close> escapes of its UTF-8 bytes.
\<close>

definition always_safe :: "char \<Rightarrow> bool" where
  "always_safe c = (c \<in> set
     ''ABCDEFGHIJKLMNOPQRSTUVWXYZabcdefghijklmnopqrstuvwxyz0123456789_.-~'')"

definition utf8_bytes :: "char \<Rightarrow> nat list" where
  "utf8_bytes c =
     (let n = (of_char c :: nat) in
      if n < 128 then [n] else [192 + n div 64, 128 + n mod 64])"

definition percent_byte :: "nat \<Rightarrow> string" where
  "percent_byte b =
     [CHR ''%'', ''0123456789ABCDEF'' ! (b div 16), ''0123456789ABCDEF'' ! (b mod 16)]"

definition quote_plus :: "string \<Rightarrow> string" where
  "quote_plus s =
     concat (map (\<lambda>c. if c = CHR '' '' then ''+''
                       else if always_safe c then [c]
                       else concat (map percent_byte (utf8_bytes c))) s)"

text \<open>\<open>urllib.parse.urlencode\<close> of a list of pairs of strings.\<close>

definition urlencode :: "(string \<times> string) list \<Rightarrow> string" where
  "urlencode params = join ''&'' (map (\<lambda>kv. quote_plus (fst kv) @ ''='' @ quote_plus (snd kv)) params)"

section \<open>Configuration\<close>

text \<open>
  The module-level settings read from the environment, and \<open>ALLOW_INSECURE_SSL\<close>, which
  \<open>_http_get_json\<close> reads on every call.
\<close>

record config =
  ODS_BASE :: string
  DATASET_ID :: string
  ODS_APIKEY :: "string option"
  PREFER_EXPLORE :: bool
  RESULTS_CACHE_TTL_SECONDS :: int
  AUTO_FALLBACK_INSECURE_SSL :: bool
  ALLOW_INSECURE_SSL :: bool

definition SCHEMA_TTL_SECONDS :: int where
  "SCHEMA_TTL_SECONDS = 600"

definition TRAINING_CPV_WHITELIST :: "string list" where
  "TRAINING_CPV_WHITELIST = [''80500000'', ''80510000'', ''80533100'', ''80570000'',
     ''80000000'', ''80553000'', ''79632000'', ''79952000'']"

definition TRAINING_SERVICE_CATEGORY :: int where
  "TRAINING_SERVICE_CATEGORY = 24"

text \<open>\<open>if ODS_APIKEY:\<close> then the parameter \<open>apikey\<close> is appended.\<close>

definition apikey_params :: "config \<Rightarrow> (string \<times> string) list" where
  "apikey_params cfg =
     (case ODS_APIKEY cfg of
        None \<Rightarrow> []
      | Some k \<Rightarrow> if k = [] then [] else [(''apikey'', k)])"

text \<open>\<open>x or d\<close> for a string \<open>x\<close>.\<close>

definition or_default :: "string \<Rightarrow> string \<Rightarrow> string" where
  "or_default x d = (if x = [] then d else x)"

text \<open>An optional string that is neither \<open>None\<close> nor empty (\<open>if x:\<close>).\<close>

fun present :: "string option \<Rightarrow> bool" where
  "present None = False"
| "present (Some s) = (s \<noteq> [])"

section \<open>Query builders\<close>

definition safe_like_fragment :: "string \<Rightarrow> string \<Rightarrow> string" where
  "safe_like_fragment field val =
     ''string('' @ field @ '') LIKE '%'' @ double_quotes val @ ''%'' @ squote"

text \<open>The keyword parameters of \<open>build_explore_url\<close> (all but \<open>fields\<close>).\<close>

record explore_args =
  ex_keywords :: string
  ex_cpv_prefix :: string
  ex_dept_codes :: "string list"
  ex_buyer :: "string option"
  ex_service_category_equals :: "string option"
  ex_cpv_whitelist :: "string list option"
  ex_nature_in :: "string list option"
  ex_sort :: "string option"
  ex_date_from :: "string option"
  ex_date_to :: "string option"
  ex_page :: int
  ex_page_size :: int

text \<open>The list \<open>where\<close> that \<open>build_explore_url\<close> collects, clause by clause.\<close>

definition where_cpv_whitelist :: "explore_args \<Rightarrow> ResolvedFields \<Rightarrow> string list" where
  "where_cpv_whitelist a flds =
     (case ex_cpv_whitelist a of
        None \<Rightarrow> []
      | Some wl \<Rightarrow>
          (let parts = map (safe_like_fragment (or_default (cpv flds) ''cpv''))
                         (filter (\<lambda>c. strip c \<noteq> []) wl)
           in if parts = [] then [] else [''('' @ join '' OR '' parts @ '')'']))"

definition where_cpv_prefix :: "explore_args \<Rightarrow> ResolvedFields \<Rightarrow> string list" where
  "where_cpv_prefix a flds =
     (if ex_cpv_prefix a = [] then []
      else (let prefix = double_quotes (ex_cpv_prefix a);
                f = or_default (cpv flds) ''cpv''
            in [''(string('' @ f @ '') LIKE '' @ squote @ prefix @ ''%' OR string('' @ f
                  @ '') LIKE '%'' @ prefix @ ''%')'']))"

definition where_dept :: "explore_args \<Rightarrow> ResolvedFields \<Rightarrow> string list" where
  "where_dept a flds =
     (if ex_dept_codes a = [] then []
      else (let in_list = join '','' (map (\<lambda>c. squote @ c @ squote) (ex_dept_codes a))
            in [''('' @ or_default (dept flds) ''departement'' @ '' IN ('' @ in_list @ ''))'']))"

definition where_buyer :: "explore_args \<Rightarrow> ResolvedFields \<Rightarrow> string list" where
  "where_buyer a flds =
     (case ex_buyer a of
        None \<Rightarrow> []
      | Some b \<Rightarrow>
          if b \<noteq> [] \<and> strip b \<noteq> []
          then [safe_like_fragment (or_default (buyer flds) ''acheteur'') b]
          else [])"

definition where_service_category :: "explore_args \<Rightarrow> ResolvedFields \<Rightarrow> string list" where
  "where_service_category a flds =
     (case ex_service_category_equals a of
        None \<Rightarrow> []
      | Some s \<Rightarrow>
          if s = [] then []
          else [or_default (serviceCategory flds) ''categorie_services'' @ '' = '' @ squote @
                  double_quotes s @ squote])"

definition where_nature :: "explore_args \<Rightarrow> ResolvedFields \<Rightarrow> string list" where
  "where_nature a flds =
     (case ex_nature_in a of
        None \<Rightarrow> []
      | Some ns \<Rightarrow>
          (let vals = map (\<lambda>v. squote @ double_quotes v @ squote)
                        (filter (\<lambda>v. strip v \<noteq> []) ns)
           in if vals = [] then []
              else [''string('' @ or_default (nature flds) ''nature'' @ '') IN ('' @
                      join '','' vals @ '')'']))"

definition date_field :: "ResolvedFields \<Rightarrow> string" where
  "date_field flds = or_default (date flds) ''record_timestamp''"

definition where_date :: "explore_args \<Rightarrow> ResolvedFields \<Rightarrow> string list" where
  "where_date a flds =
     (case ex_date_from a of
        None \<Rightarrow> []
      | Some d \<Rightarrow> if d = [] then [] else [date_field flds @ '' >= '' @ squote @ d @ squote])
     @
     (case ex_date_to a of
        None \<Rightarrow> []
      | Some d \<Rightarrow> if d = [] then [] else [date_field flds @ '' <= '' @ squote @ d @ squote])"

definition explore_where :: "explore_args \<Rightarrow> ResolvedFields \<Rightarrow> string list" where
  "explore_where a flds =
     where_cpv_whitelist a flds @ where_cpv_prefix a flds @ where_dept a flds
     @ where_buyer a flds @ where_service_category a flds @ where_nature a flds
     @ where_date a flds"

text \<open>The value of the \<open>order_by\<close> parameter.\<close>

definition explore_order_by :: "explore_args \<Rightarrow> ResolvedFields \<Rightarrow> string" where
  "explore_order_by a flds =
     (if ex_sort a = Some ''deadline'' \<and> deadline flds \<noteq> [] then ''-'' @ deadline flds
      else if ex_sort a = Some ''relevance'' \<and> strip (ex_keywords a) \<noteq> [] then ''relevance''
      else ''-'' @ date_field flds)"

text \<open>The list \<open>params\<close> before it is encoded.\<close>

definition explore_params :: "config \<Rightarrow> explore_args \<Rightarrow> ResolvedFields \<Rightarrow> (string \<times> string) list" where
  "explore_params cfg a flds =
     (if strip (ex_keywords a) \<noteq> [] then [(''q'', strip (ex_keywords a))] else [])
     @ (if explore_where a flds \<noteq> []
        then [(''where'', join '' AND '' (explore_where a flds))] else [])
     @ [(''order_by'', explore_order_by a flds),
        (''limit'', str_int (ex_page_size a)),
        (''offset'', str_int ((ex_page a - 1) * ex_page_size a))]
     @ apikey_params cfg"

definition build_explore_url :: "config \<Rightarrow> explore_args \<Rightarrow> ResolvedFields \<Rightarrow> string" where
  "build_explore_url cfg a flds =
     rstrip_slash (ODS_BASE cfg) @ ''/api/explore/v2.1/catalog/datasets/'' @ DATASET_ID cfg
       @ ''/records?'' @ urlencode (explore_params cfg a flds)"

text \<open>The keyword parameters of \<open>build_records_v1_url\<close> (all but \<open>fields\<close>).\<close>

record records_args =
  v1_q :: "string option"
  v1_dept_codes :: "string list"
  v1_buyer :: "string option"
  v1_cpv_whitelist :: "string list option"
  v1_service_category_equals :: "string option"
  v1_page :: int
  v1_page_size :: int

definition records_v1_params :: "config \<Rightarrow> records_args \<Rightarrow> ResolvedFields \<Rightarrow> (string \<times> string) list" where
  "records_v1_params cfg a flds =
     [(''dataset'', DATASET_ID cfg),
      (''rows'', str_int (v1_page_size a)),
      (''start'', str_int ((v1_page a - 1) * v1_page_size a))]
     @ (case v1_q a of None \<Rightarrow> [] | Some s \<Rightarrow> if s = [] then [] else [(''q'', s)])
     @ (case v1_cpv_whitelist a of
          None \<Rightarrow> []
        | Some wl \<Rightarrow> map (\<lambda>code. (''refine.'' @ or_default (cpv flds) ''cpv'', code)) wl)
     @ (case v1_service_category_equals a of
          None \<Rightarrow> []
        | Some s \<Rightarrow>
            if s = [] then []
            else [(''refine.'' @ or_default (serviceCategory flds) ''categorie_services'', s)])
     @ map (\<lambda>d. (''refine.'' @ or_default (dept flds) ''code_departement'', d)) (v1_dept_codes a)
     @ (case v1_buyer a of
          None \<Rightarrow> []
        | Some b \<Rightarrow> if b = [] then [] else [(''refine.'' @ or_default (buyer flds) ''acheteur'', b)])
     @ apikey_params cfg"

definition build_records_v1_url :: "config \<Rightarrow> records_args \<Rightarrow> ResolvedFields \<Rightarrow> string" where
  "build_records_v1_url cfg a flds =
     rstrip_slash (ODS_BASE cfg) @ ''/api/records/1.0/search/?''
       @ urlencode (records_v1_params cfg a flds)"

section \<open>The cache key\<close>

text \<open>
  \<open>json.dumps(obj, sort_keys=True, ensure_ascii=False)\<close> with the default separators.
  A string is written between double quotes; the double quote, the backslash and the
  control characters below 0x20 are escaped and nothing else is.
\<close>

definition json_escape_char :: "char \<Rightarrow> string" where
  "json_escape_char c =
     (if c = CHR 0x22 then [CHR 0x5C, CHR 0x22]
      else if c = CHR 0x5C then [CHR 0x5C, CHR 0x5C]
      else if c = CHR 0x0A then [CHR 0x5C, CHR ''n'']
      else if c = CHR 0x0D then [CHR 0x5C, CHR ''r'']
      else if c = CHR 0x09 then [CHR 0x5C, CHR ''t'']
      else if c = CHR 0x08 then [CHR 0x5C, CHR ''b'']
      else if c = CHR 0x0C then [CHR 0x5C, CHR ''f'']
      else if (of_char c :: nat) < 32
        then [CHR 0x5C, CHR ''u'', CHR ''0'', CHR ''0'',
              ''0123456789abcdef'' ! ((of_char c :: nat) div 16),
              ''0123456789abcdef'' ! ((of_char c :: nat) mod 16)]
      else [c])"

definition json_dumps_str :: "string \<Rightarrow> string" where
  "json_dumps_str s = [CHR 0x22] @ concat (map json_escape_char s) @ [CHR 0x22]"

fun json_dumps :: "json \<Rightarrow> string" where
  "json_dumps JNull = ''null''"
| "json_dumps (JBool b) = (if b then ''true'' else ''false'')"
| "json_dumps (JInt i) = str_int i"
| "json_dumps (JStr s) = json_dumps_str s"
| "json_dumps (JArr xs) = ''['' @ join '', '' (map json_dumps xs) @ '']''"
| "json_dumps (JObj kvs) =
     ''{'' @ join '', ''
        (map (\<lambda>kv. json_dumps_str (fst kv) @ '': '' @ snd kv)
           (sort_key fst (map (\<lambda>(k, v). (k, json_dumps v)) kvs)))
     @ ''}''"

text \<open>The keyword parameters of \<open>perform_search\<close>.\<close>

record search_args =
  arg_q :: string
  arg_cpv_prefix :: string
  arg_dept_codes :: "string list"
  arg_buyer :: "string option"
  arg_date_from :: "string option"
  arg_date_to :: "string option"
  arg_nature_in :: "string list option"
  arg_use_training :: bool
  arg_page :: int
  arg_page_size :: int
  arg_sort :: "string option"

text \<open>An optional string as a JSON value.\<close>

fun json_opt_str :: "string option \<Rightarrow> json" where
  "json_opt_str None = JNull"
| "json_opt_str (Some s) = JStr s"

text \<open>\<open>fields.__dict__\<close>: the sixteen attributes in the order of their declaration.\<close>

definition fields_dict :: "ResolvedFields \<Rightarrow> json" where
  "fields_dict flds = JObj
     [(''date'', JStr (date flds)), (''title'', JStr (title flds)), (''url'', JStr (url flds)),
      (''cpv'', JStr (cpv flds)), (''dept'', JStr (dept flds)), (''buyer'', JStr (buyer flds)),
      (''description'', JStr (description flds)), (''ref'', JStr (ref flds)),
      (''serviceCategory'', JStr (serviceCategory flds)), (''nature'', JStr (nature flds)),
      (''deadline'', JStr (deadline flds)), (''buyerAddress'', JStr (buyerAddress flds)),
      (''budget'', JStr (budget flds)), (''procedure'', JStr (procedure flds)),
      (''marketType'', JStr (marketType flds)), (''place'', JStr (place flds))]"

text \<open>The dict that \<open>perform_search\<close> serialises, and the key.\<close>

definition cache_key_dict :: "config \<Rightarrow> search_args \<Rightarrow> ResolvedFields \<Rightarrow> json" where
  "cache_key_dict cfg a flds = JObj
     [(''base'', JStr (ODS_BASE cfg)),
      (''dataset'', JStr (DATASET_ID cfg)),
      (''q'', JStr (arg_q a)),
      (''cpv_prefix'', JStr (arg_cpv_prefix a)),
      (''dept_codes'', JArr (map JStr (sort (arg_dept_codes a)))),
      (''buyer'', json_opt_str (arg_buyer a)),
      (''date_from'', json_opt_str (arg_date_from a)),
      (''date_to'', json_opt_str (arg_date_to a)),
      (''use_training'', JBool (arg_use_training a)),
      (''nature_in'', JArr (map JStr (case arg_nature_in a of None \<Rightarrow> [] | Some ns \<Rightarrow> ns))),
      (''page'', JInt (arg_page a)),
      (''page_size'', JInt (arg_page_size a)),
      (''fields'', fields_dict flds),
      (''sort'', JStr (case arg_sort a of None \<Rightarrow> [] | Some s \<Rightarrow> s))]"

definition cache_key :: "config \<Rightarrow> search_args \<Rightarrow> ResolvedFields \<Rightarrow> string" where
  "cache_key cfg a flds = json_dumps (cache_key_dict cfg a flds)"

section \<open>Process state and the network\<close>

text \<open>
  What \<open>perform_search\<close> returns and the result cache stores:
  \<open>(records, total, debug_url, fields)\<close>.
\<close>

type_synonym result = "json list \<times> json \<times> string \<times> ResolvedFields"

text \<open>
  The module-level state: \<open>_SCHEMA_CACHE["value"]\<close> (\<open>None\<close> is \<open>JNull\<close>) and
  \<open>_SCHEMA_CACHE["ts"]\<close>, the dict \<open>_RESULTS_CACHE\<close> (each entry a value and its
  timestamp), and two observations of the network: the URLs handed to
  \<open>_http_get_json\<close> so far, and the number of \<open>urlopen\<close> requests made so far.
  Clock readings (\<open>time.time()\<close>) are real numbers.
\<close>

record state =
  schema_value :: json
  schema_ts :: real
  results_cache :: "string \<rightharpoonup> (result \<times> real)"
  http_calls :: "string list"
  opened :: nat

text \<open>
  The network: what the \<open>n\<close>-th request of the process gives for a URL under a
  verified (\<open>False\<close>) or unverified (\<open>True\<close>) TLS context, after \<open>urlopen\<close>,
  \<open>read\<close> and \<open>json.loads\<close>: an exception or the parsed body.
\<close>

type_synonym network = "nat \<Rightarrow> string \<Rightarrow> bool \<Rightarrow> exn + json"

definition cert_verify_failed :: "exn \<Rightarrow> bool" where
  "cert_verify_failed e =
     (contains (exn_text e) ''CERTIFICATE_VERIFY_FAILED''
      \<or> contains (lower (exn_text e)) ''certificate verify failed'')"

definition http_get_json :: "config \<Rightarrow> network \<Rightarrow> string \<Rightarrow> state \<Rightarrow> (exn + json) \<times> state" where
  "http_get_json cfg net u st =
     (let st1 = st\<lparr> http_calls := http_calls st @ [u], opened := Suc (opened st) \<rparr> in
      case net (opened st) u (ALLOW_INSECURE_SSL cfg) of
        Inr data \<Rightarrow> (Inr data, st1)
      | Inl e \<Rightarrow>
          if \<not> ALLOW_INSECURE_SSL cfg \<and> AUTO_FALLBACK_INSECURE_SSL cfg \<and> cert_verify_failed e
          then (net (opened st1) u True, st1\<lparr> opened := Suc (opened st1) \<rparr>)
          else (Inl e, st1))"

definition schema_url :: "config \<Rightarrow> string" where
  "schema_url cfg =
     (let u = rstrip_slash (ODS_BASE cfg) @ ''/api/v2/catalog/datasets/'' @ DATASET_ID cfg in
      case ODS_APIKEY cfg of
        None \<Rightarrow> u
      | Some k \<Rightarrow> if k = [] then u else u @ ''?'' @ urlencode [(''apikey'', k)])"

definition fetch_dataset_schema ::
  "config \<Rightarrow> network \<Rightarrow> real \<Rightarrow> bool \<Rightarrow> state \<Rightarrow> (exn + json) \<times> state" where
  "fetch_dataset_schema cfg net now force_refresh st =
     (if \<not> force_refresh \<and> truthy (schema_value st)
         \<and> now - schema_ts st < real_of_int SCHEMA_TTL_SECONDS
      then (Inr (schema_value st), st)
      else (case http_get_json cfg net (schema_url cfg) st of
              (Inl e, st1) \<Rightarrow> (Inl e, st1)
            | (Inr schema, st1) \<Rightarrow>
                (Inr schema, st1\<lparr> schema_value := schema, schema_ts := now \<rparr>)))"

section \<open>The result cache\<close>

definition cache_get :: "config \<Rightarrow> real \<Rightarrow> string \<Rightarrow> state \<Rightarrow> result option \<times> state" where
  "cache_get cfg now key st =
     (case results_cache st key of
        None \<Rightarrow> (None, st)
      | Some entry \<Rightarrow>
          if now - snd entry > real_of_int (RESULTS_CACHE_TTL_SECONDS cfg)
          then (None, st\<lparr> results_cache := (results_cache st)(key := None) \<rparr>)
          else (Some (fst entry), st))"

definition cache_set :: "real \<Rightarrow> string \<Rightarrow> result \<Rightarrow> state \<Rightarrow> state" where
  "cache_set now key val st = st\<lparr> results_cache := (results_cache st)(key \<mapsto> (val, now)) \<rparr>"

section \<open>The search orchestrator\<close>

text \<open>\<open>int(total) if isinstance(total, int) else total\<close>; a bool is an int in Python.\<close>

fun int_total :: "json \<Rightarrow> json" where
  "int_total (JBool b) = JInt (if b then 1 else 0)"
| "int_total t = t"

definition training_whitelist :: "search_args \<Rightarrow> string list option" where
  "training_whitelist a = (if arg_use_training a then Some TRAINING_CPV_WHITELIST else None)"

definition training_service_cat :: "search_args \<Rightarrow> string option" where
  "training_service_cat a =
     (if arg_use_training a then Some (str_int TRAINING_SERVICE_CATEGORY) else None)"

text \<open>
  The arguments \<open>_try_explore\<close> gives to \<open>build_explore_url\<close>; \<open>sort=None\<close> is
  what the source passes.
\<close>

definition explore_args_of :: "search_args \<Rightarrow> explore_args" where
  "explore_args_of a =
     \<lparr> ex_keywords = arg_q a,
       ex_cpv_prefix = arg_cpv_prefix a,
       ex_dept_codes = arg_dept_codes a,
       ex_buyer = arg_buyer a,
       ex_service_category_equals = training_service_cat a,
       ex_cpv_whitelist = training_whitelist a,
       ex_nature_in = arg_nature_in a,
       ex_sort = None,
       ex_date_from = arg_date_from a,
       ex_date_to = arg_date_to a,
       ex_page = arg_page a,
       ex_page_size = arg_page_size a \<rparr>"

text \<open>The arguments \<open>_try_records_v1\<close> gives to \<open>build_records_v1_url\<close> (\<open>q or None\<close>).\<close>

definition records_args_of :: "search_args \<Rightarrow> records_args" where
  "records_args_of a =
     \<lparr> v1_q = (if arg_q a = [] then None else Some (arg_q a)),
       v1_dept_codes = arg_dept_codes a,
       v1_buyer = arg_buyer a,
       v1_cpv_whitelist = training_whitelist a,
       v1_service_category_equals = training_service_cat a,
       v1_page = arg_page a,
       v1_page_size = arg_page_size a \<rparr>"

text \<open>
  After the body is fetched: \<open>list(data.get(k_records) or [])\<close>, \<open>data.get(k_total)\<close>
  and the tuple.
\<close>

definition unpack_response ::
  "string \<Rightarrow> string \<Rightarrow> json \<Rightarrow> string \<Rightarrow> ResolvedFields \<Rightarrow> exn + result" where
  "unpack_response k_records k_total data u flds =
     (case dict_get data k_records JNull of
        Inl e \<Rightarrow> Inl e
      | Inr rs \<Rightarrow>
          (case py_iter (if truthy rs then rs else JArr []) of
             Inl e \<Rightarrow> Inl e
           | Inr records \<Rightarrow>
               (case dict_get data k_total JNull of
                  Inl e \<Rightarrow> Inl e
                | Inr tot \<Rightarrow> Inr (records, int_total tot, u, flds))))"

definition try_explore ::
  "config \<Rightarrow> network \<Rightarrow> search_args \<Rightarrow> ResolvedFields \<Rightarrow> state \<Rightarrow> (exn + result) \<times> state" where
  "try_explore cfg net a flds st =
     (let explore_url = build_explore_url cfg (explore_args_of a) flds in
      case http_get_json cfg net explore_url st of
        (Inl e, st1) \<Rightarrow> (Inl e, st1)
      | (Inr data, st1) \<Rightarrow>
          (unpack_response ''results'' ''total_count'' data explore_url flds, st1))"

definition try_records_v1 ::
  "config \<Rightarrow> network \<Rightarrow> search_args \<Rightarrow> ResolvedFields \<Rightarrow> state \<Rightarrow> (exn + result) \<times> state" where
  "try_records_v1 cfg net a flds st =
     (let v1_url = build_records_v1_url cfg (records_args_of a) flds in
      case http_get_json cfg net v1_url st of
        (Inl e, st1) \<Rightarrow> (Inl e, st1)
      | (Inr data, st1) \<Rightarrow>
          (unpack_response ''records'' ''nhits'' data v1_url flds, st1))"

text \<open>A dialect attempt followed by \<open>_cache_set(cache_key, result); return result\<close>.\<close>

definition cached_attempt ::
  "real \<Rightarrow> string \<Rightarrow> (exn + result) \<times> state \<Rightarrow> (exn + result) \<times> state" where
  "cached_attempt now key outcome =
     (case outcome of
        (Inl e, st1) \<Rightarrow> (Inl e, st1)
      | (Inr r, st1) \<Rightarrow> (Inr r, cache_set now key r st1))"

text \<open>
  The part of \<open>perform_search\<close> after a cache miss. With \<open>PREFER_EXPLORE\<close> the
  handlers are \<open>except HTTPError\<close> (fallback when \<open>400 <= code <= 499\<close>, else
  \<open>raise\<close>) and \<open>except (URLError, json.JSONDecodeError)\<close>; without it the single
  handler is \<open>except (HTTPError, URLError, json.JSONDecodeError)\<close>. An exception
  raised inside a handler leaves the function.
\<close>

definition search_dialects ::
  "config \<Rightarrow> network \<Rightarrow> real \<Rightarrow> string \<Rightarrow> search_args \<Rightarrow> ResolvedFields \<Rightarrow> state
     \<Rightarrow> (exn + result) \<times> state" where
  "search_dialects cfg net now key a flds st =
     (if PREFER_EXPLORE cfg then
        (case try_explore cfg net a flds st of
           (Inr r, st1) \<Rightarrow> (Inr r, cache_set now key r st1)
         | (Inl (HTTPError code m), st1) \<Rightarrow>
             if 400 \<le> code \<and> code \<le> 499
             then cached_attempt now key (try_records_v1 cfg net a flds st1)
             else (Inl (HTTPError code m), st1)
         | (Inl (URLError m), st1) \<Rightarrow> cached_attempt now key (try_records_v1 cfg net a flds st1)
         | (Inl (JSONDecodeError m), st1) \<Rightarrow>
             cached_attempt now key (try_records_v1 cfg net a flds st1)
         | (Inl (OtherError m), st1) \<Rightarrow> (Inl (OtherError m), st1))
      else
        (case try_records_v1 cfg net a flds st of
           (Inr r, st1) \<Rightarrow> (Inr r, cache_set now key r st1)
         | (Inl (OtherError m), st1) \<Rightarrow> (Inl (OtherError m), st1)
         | (Inl e, st1) \<Rightarrow> cached_attempt now key (try_explore cfg net a flds st1)))"

text \<open>
  \<open>perform_search\<close>. The three clock readings are those of \<open>fetch_dataset_schema\<close>,
  \<open>_cache_get\<close> and \<open>_cache_set\<close>, in that order.
\<close>

definition perform_search ::
  "config \<Rightarrow> network \<Rightarrow> real \<Rightarrow> real \<Rightarrow> real \<Rightarrow> search_args \<Rightarrow> state \<Rightarrow> (exn + result) \<times> state" where
  "perform_search cfg net t_schema t_get t_set a st =
     (case fetch_dataset_schema cfg net t_schema False st of
        (Inl e, st1) \<Rightarrow> (Inl e, st1)
      | (Inr schema, st1) \<Rightarrow>
          (case resolve_fields schema of
             Inl e \<Rightarrow> (Inl e, st1)
           | Inr flds \<Rightarrow>
               (let key = cache_key cfg a flds in
                case cache_get cfg t_get key st1 of
                  (Some cached, st2) \<Rightarrow> (Inr cached, st2)
                | (None, st2) \<Rightarrow> search_dialects cfg net t_set key a flds st2)))"

section \<open>Record URL normalisation\<close>

text \<open>\<open>s.split(sep)\<close> for a one-character separator.\<close>

fun split_on :: "char \<Rightarrow> string \<Rightarrow> string list" where
  "split_on sep [] = [] # []"
| "split_on sep (c # cs) =
     (if c = sep then [] # split_on sep cs
      else (case split_on sep cs of
              [] \<Rightarrow> [c] # []
            | w # ws \<Rightarrow> (c # w) # ws))"

text \<open>
  \<open>_normalize_record_url\<close>. Two functions of \<open>urllib.parse\<close> are parameters:
  \<open>hostname_of u\<close> stands for \<open>urlparse(u).hostname\<close> and \<open>urljoin b u\<close> for
  \<open>urljoin(b, u)\<close>; either may raise.
\<close>

definition normalize_record_url ::
  "(string \<Rightarrow> exn + string option) \<Rightarrow> (string \<Rightarrow> string \<Rightarrow> exn + string)
     \<Rightarrow> string \<Rightarrow> string \<Rightarrow> string option \<Rightarrow> string option \<Rightarrow> string option \<Rightarrow> string" where
  "normalize_record_url hostname_of urljoin base dataset_id raw_url reference record_id =
     (let base_no_slash = rstrip_slash base;
          host = (case hostname_of base_no_slash of
                    Inl e \<Rightarrow> []
                  | Inr None \<Rightarrow> []
                  | Inr (Some h) \<Rightarrow> h);
          dataset_record =
            (if present record_id
             then base_no_slash @ ''/explore/dataset/'' @ dataset_id @ ''/record/?id=''
                    @ split_on CHR ''='' (urlencode [(''id'', the record_id)]) ! 1
             else base_no_slash);
          is_boamp_portal = endswith host ''boamp.fr'';
          detail = base_no_slash @ ''/avis/detail/'' @ the reference
      in if \<not> present raw_url
         then (if is_boamp_portal \<and> present reference then detail else dataset_record)
         else (case urljoin (base_no_slash @ ''/'') (the raw_url) of
                 Inl e \<Rightarrow>
                   (if is_boamp_portal \<and> present reference then detail else dataset_record)
               | Inr href \<Rightarrow>
                   if href = base_no_slash @ ''/'' \<or> contains href ''/pages/entreprise-accueil''
                   then (if is_boamp_portal \<and> present reference then detail
                         else dataset_record)
                   else href))"

section \<open>The fallback policy in the words of the specification\<close>

text \<open>
  The failures of the preferred dialect that authorise the one fallback attempt: an HTTP
  error with a status in [400,499], a transport-level error, a response-parsing failure.
\<close>

fun fallback_authorized :: "exn \<Rightarrow> bool" where
  "fallback_authorized (HTTPError code m) = (400 \<le> code \<and> code \<le> 499)"
| "fallback_authorized (URLError m) = True"
| "fallback_authorized (JSONDecodeError m) = True"
| "fallback_authorized (OtherError m) = False"


section \<open>Example inputs\<close>

text \<open>
  The default configuration of the source, the fields resolved from
  \<open>example_schema\<close>, an empty process state and a plain request.
\<close>

definition example_config :: config where
  "example_config =
     \<lparr> ODS_BASE = ''https://boamp-datadila.opendatasoft.com'', DATASET_ID = ''boamp'',
       ODS_APIKEY = None, PREFER_EXPLORE = True, RESULTS_CACHE_TTL_SECONDS = 60,
       AUTO_FALLBACK_INSECURE_SSL = True, ALLOW_INSECURE_SSL = False \<rparr>"

definition example_fields :: ResolvedFields where
  "example_fields =
     \<lparr> date = ''dateparution'', title = ''objet'', url = ''permalink'', cpv = ''cpv'',
       dept = ''departement'', buyer = ''acheteur'', description = ''objet'', ref = ''id'',
       serviceCategory = ''categorie_services'', nature = ''nature'',
       deadline = ''date_limite_remise_offres'',
       buyerAddress = ''nom_et_adresse_officiels_de_l_organisme_acheteur'',
       budget = ''montant'', procedure = ''procedure'', marketType = ''type_marche'',
       place = ''lieu_execution'' \<rparr>"

definition initial_state :: state where
  "initial_state =
     \<lparr> schema_value = JNull, schema_ts = 0, results_cache = Map.empty, http_calls = [],
       opened = 0 \<rparr>"

definition example_args :: search_args where
  "example_args =
     \<lparr> arg_q = ''formation'', arg_cpv_prefix = [], arg_dept_codes = [],
       arg_buyer = None, arg_date_from = None, arg_date_to = None, arg_nature_in = None,
       arg_use_training = False, arg_page = 1, arg_page_size = 20, arg_sort = None \<rparr>"


definition records_body :: json where
  "records_body = JObj [(''nhits'', JInt 1), (''records'', JArr [JObj [(''recordid'', JStr ''r1'')]])]"

text \<open>
  Networks of three requests: the catalog answers, the second request fails with the given
  exception, the third answers with the given body.
\<close>

definition failing_once :: "exn \<Rightarrow> json \<Rightarrow> network" where
  "failing_once e body n u insecure =
     (if n = 0 then Inr example_schema else if n = 1 then Inl e else Inr body)"

text \<open>A network on which every request fails with the given exception.\<close>

definition always_failing :: "exn \<Rightarrow> network" where
  "always_failing e n u insecure = Inl e"

text \<open>A state whose schema cache holds \<open>example_schema\<close>, fetched at time 0.\<close>

definition warm_state :: state where
  "warm_state = initial_state\<lparr> schema_value := example_schema \<rparr>"

text \<open>The state once the catalog has been fetched, at time 0, from an empty process.\<close>

definition fetched_state :: "config \<Rightarrow> state" where
  "fetched_state cfg =
     initial_state\<lparr> schema_value := example_schema, schema_ts := 0,
       http_calls := [schema_url cfg], opened := 1 \<rparr>"


text \<open>
  A result of the Explore dialect, and a state whose result cache holds it since time 100
  under the key of the example request.
\<close>

definition example_result :: result where
  "example_result = ([JObj [(''id'', JStr ''24-1'')]], JInt 1,
     build_explore_url example_config (explore_args_of example_args) example_fields,
     example_fields)"

definition cached_state :: state where
  "cached_state = warm_state\<lparr> results_cache :=
      [cache_key example_config example_args example_fields \<mapsto> (example_result, 100)] \<rparr>"

text \<open>
  Requests as \<open>/api/search\<close> passes them on: one with quotes in a department code, in
  the buyer and in the lower date bound; one asking for the deadline order; two that differ
  only in the order of the \<open>nature\<close> values.
\<close>

definition quoted_args :: search_args where
  "quoted_args = example_args\<lparr> arg_q := [], arg_dept_codes := [''7'5''],
      arg_buyer := Some ''d'Issy'',
      arg_date_from := Some ''2024-01-01' OR '1'='1'' \<rparr>"

definition deadline_args :: search_args where
  "deadline_args = example_args\<lparr> arg_sort := Some ''deadline'' \<rparr>"

definition nature_ab :: search_args where
  "nature_ab = example_args\<lparr> arg_nature_in := Some [''AppelOffre'', ''Attribution''] \<rparr>"

definition nature_ba :: search_args where
  "nature_ba = example_args\<lparr> arg_nature_in := Some [''Attribution'', ''AppelOffre''] \<rparr>"


section \<open>Properties of the field resolver\<close>


lemma pick_in: "pick names cands fallback \<in> set cands \<union> {fallback}"
  by (induction cands) auto

lemma pick_nonempty: "fallback \<noteq> [] \<Longrightarrow> [] \<notin> set cands \<Longrightarrow> pick names cands fallback \<noteq> []"
  using pick_in[of names cands fallback] by auto


lemma cands_nonempty:
  "[] \<notin> set cand_date" "[] \<notin> set cand_title" "[] \<notin> set cand_url" "[] \<notin> set cand_cpv"
  "[] \<notin> set cand_dept" "[] \<notin> set cand_buyer" "[] \<notin> set cand_description"
  "[] \<notin> set cand_ref" "[] \<notin> set cand_serviceCategory" "[] \<notin> set cand_nature"
  "[] \<notin> set cand_deadline" "[] \<notin> set cand_buyerAddress" "[] \<notin> set cand_budget"
  "[] \<notin> set cand_procedure" "[] \<notin> set cand_marketType" "[] \<notin> set cand_place"
  by (simp_all add: cand_date_def cand_title_def cand_url_def cand_cpv_def cand_dept_def
      cand_buyer_def cand_description_def cand_ref_def cand_serviceCategory_def cand_nature_def
      cand_deadline_def cand_buyerAddress_def cand_budget_def cand_procedure_def
      cand_marketType_def cand_place_def)

lemma schema_names_example:
  "schema_names example_schema = [JStr ''objet'', JStr ''dateparution'']"
  by (simp add: example_schema_def schema_names_def schema_names_try_def)

lemma schema_names_JNull: "schema_names JNull = []"
  by (simp add: schema_names_def schema_names_try_def)











text \<open>
  Claim C8. For every schema, each of the sixteen slots of the value returned by
  \<open>resolve_fields\<close> is a non-empty string.
\<close>

theorem resolve_fields_slots_nonempty:
  "\<exists>r. resolve_fields schema = Inr r
     \<and> date r \<noteq> [] \<and> title r \<noteq> [] \<and> url r \<noteq> [] \<and> cpv r \<noteq> [] \<and> dept r \<noteq> []
     \<and> buyer r \<noteq> [] \<and> description r \<noteq> [] \<and> ref r \<noteq> [] \<and> serviceCategory r \<noteq> []
     \<and> nature r \<noteq> [] \<and> deadline r \<noteq> [] \<and> buyerAddress r \<noteq> [] \<and> budget r \<noteq> []
     \<and> procedure r \<noteq> [] \<and> marketType r \<noteq> [] \<and> place r \<noteq> []"
  unfolding resolve_fields_def Let_def
  by (simp add: pick_nonempty cands_nonempty del: pick.simps)

section \<open>Properties of the orchestrator\<close>

lemma dialect_urls_differ:
  "build_explore_url cfg ea flds \<noteq> build_records_v1_url cfg ra flds2"
  by (simp add: build_explore_url_def build_records_v1_url_def)

lemma http_get_json_calls:
  "http_calls (snd (http_get_json cfg net u st)) = http_calls st @ [u]"
  by (simp add: http_get_json_def Let_def split: sum.splits)

lemma http_get_json_cache:
  "results_cache (snd (http_get_json cfg net u st)) = results_cache st"
  "schema_value (snd (http_get_json cfg net u st)) = schema_value st"
  "schema_ts (snd (http_get_json cfg net u st)) = schema_ts st"
  by (simp_all add: http_get_json_def Let_def split: sum.splits)

lemma try_explore_calls:
  "http_calls (snd (try_explore cfg net a flds st))
     = http_calls st @ [build_explore_url cfg (explore_args_of a) flds]"
  using http_get_json_calls[of cfg net "build_explore_url cfg (explore_args_of a) flds" st]
  by (auto simp: try_explore_def Let_def split: prod.splits sum.splits)

lemma try_records_v1_calls:
  "http_calls (snd (try_records_v1 cfg net a flds st))
     = http_calls st @ [build_records_v1_url cfg (records_args_of a) flds]"
  using http_get_json_calls[of cfg net "build_records_v1_url cfg (records_args_of a) flds" st]
  by (auto simp: try_records_v1_def Let_def split: prod.splits sum.splits)

lemma try_explore_cache:
  "results_cache (snd (try_explore cfg net a flds st)) = results_cache st"
  using http_get_json_cache(1)[of cfg net "build_explore_url cfg (explore_args_of a) flds" st]
  by (auto simp: try_explore_def Let_def split: prod.splits sum.splits)


lemma cache_set_calls: "http_calls (cache_set now key r st) = http_calls st"
  by (simp add: cache_set_def)

lemma cached_attempt_calls: "http_calls (snd (cached_attempt now key out)) = http_calls (snd out)"
  by (simp add: cached_attempt_def cache_set_calls split: prod.splits sum.splits)

lemma cache_get_miss_state:
  "cache_get cfg now key st = (None, st2) \<Longrightarrow>
     http_calls st2 = http_calls st \<and> opened st2 = opened st"
  by (auto simp: cache_get_def split: option.splits if_splits)

lemma search_dialects_explore_first:
  assumes pe: "PREFER_EXPLORE cfg"
    and p: "try_explore cfg net a flds st = (primary, st3)"
    and s: "try_records_v1 cfg net a flds st3 = (secondary, st4)"
  shows "search_dialects cfg net now key a flds st =
     (case primary of
        Inr r \<Rightarrow> (Inr r, cache_set now key r st3)
      | Inl e \<Rightarrow>
          if fallback_authorized e
          then (case secondary of
                  Inr r \<Rightarrow> (Inr r, cache_set now key r st4)
                | Inl e2 \<Rightarrow> (Inl e2, st4))
          else (Inl e, st3))"
proof (cases primary)
  case (Inr r)
  with pe p show ?thesis by (simp add: search_dialects_def)
next
  case (Inl e)
  with pe p s show ?thesis
    by (cases e; cases secondary) (simp_all add: search_dialects_def cached_attempt_def)
qed


lemma perform_search_miss:
  assumes "fetch_dataset_schema cfg net t1 False st = (Inr schema, st1)"
    and "resolve_fields schema = Inr flds"
    and "cache_get cfg t2 (cache_key cfg a flds) st1 = (None, st2)"
  shows "perform_search cfg net t1 t2 t3 a st
           = search_dialects cfg net t3 (cache_key cfg a flds) a flds st2"
  using assms by (simp add: perform_search_def Let_def)

text \<open>
  The Explore-first path after a cache miss, case by case: \<open>perform_search\<close> calls the
  Explore URL and then the Records v1 URL, once each and in that order, exactly when the
  Explore attempt raises an \<open>HTTPError\<close> with a status in [400,499], a \<open>URLError\<close>
  or a \<open>JSONDecodeError\<close>; in every other case the Explore URL is the only call. A
  successful Records attempt is stored under the cache key and returned, a failed one
  raises its own exception. Any other exception of the Explore attempt, an \<open>HTTPError\<close>
  of status 500 or more among them, is raised as it is, with no second call and the result
  cache as it was. The two URLs differ.
\<close>

lemma perform_search_explore_first_cases:
  assumes pe: "PREFER_EXPLORE cfg"
    and f: "fetch_dataset_schema cfg net t1 False st = (Inr schema, st1)"
    and r: "resolve_fields schema = Inr flds"
    and g: "cache_get cfg t2 (cache_key cfg a flds) st1 = (None, st2)"
    and p: "try_explore cfg net a flds st2 = (primary, st3)"
    and s: "try_records_v1 cfg net a flds st3 = (secondary, st4)"
  shows
    "(case primary of
        Inr r \<Rightarrow>
          perform_search cfg net t1 t2 t3 a st
            = (Inr r, cache_set t3 (cache_key cfg a flds) r st3)
          \<and> http_calls (snd (perform_search cfg net t1 t2 t3 a st))
              = http_calls st1 @ [build_explore_url cfg (explore_args_of a) flds]
      | Inl e \<Rightarrow>
          if fallback_authorized e
          then http_calls (snd (perform_search cfg net t1 t2 t3 a st))
                 = http_calls st1 @ [build_explore_url cfg (explore_args_of a) flds,
                                     build_records_v1_url cfg (records_args_of a) flds]
               \<and> (case secondary of
                     Inr r \<Rightarrow>
                       perform_search cfg net t1 t2 t3 a st
                         = (Inr r, cache_set t3 (cache_key cfg a flds) r st4)
                   | Inl e2 \<Rightarrow> perform_search cfg net t1 t2 t3 a st = (Inl e2, st4))
          else perform_search cfg net t1 t2 t3 a st = (Inl e, st3)
               \<and> http_calls st3
                    = http_calls st1 @ [build_explore_url cfg (explore_args_of a) flds]
               \<and> results_cache st3 = results_cache st2)
     \<and> (\<forall>code m. primary = Inl (HTTPError code m) \<and> 500 \<le> code
            \<longrightarrow> perform_search cfg net t1 t2 t3 a st = (Inl (HTTPError code m), st3))
     \<and> build_explore_url cfg (explore_args_of a) flds
           \<noteq> build_records_v1_url cfg (records_args_of a) flds"
proof -
  have ps: "perform_search cfg net t1 t2 t3 a st
              = search_dialects cfg net t3 (cache_key cfg a flds) a flds st2"
    using f r g by (rule perform_search_miss)
  have sd: "search_dialects cfg net t3 (cache_key cfg a flds) a flds st2 =
     (case primary of
        Inr r \<Rightarrow> (Inr r, cache_set t3 (cache_key cfg a flds) r st3)
      | Inl e \<Rightarrow>
          if fallback_authorized e
          then (case secondary of
                  Inr r \<Rightarrow> (Inr r, cache_set t3 (cache_key cfg a flds) r st4)
                | Inl e2 \<Rightarrow> (Inl e2, st4))
          else (Inl e, st3))"
    using pe p s by (rule search_dialects_explore_first)
  have c2: "http_calls st2 = http_calls st1"
    using cache_get_miss_state[OF g] by simp
  have c3: "http_calls st3 = http_calls st1 @ [build_explore_url cfg (explore_args_of a) flds]"
    using try_explore_calls[of cfg net a flds st2] p c2 by simp
  have c4: "http_calls st4 = http_calls st1 @ [build_explore_url cfg (explore_args_of a) flds,
                                     build_records_v1_url cfg (records_args_of a) flds]"
    using try_records_v1_calls[of cfg net a flds st3] s c3 by simp
  have k3: "results_cache st3 = results_cache st2"
    using try_explore_cache[of cfg net a flds st2] p by simp
  show ?thesis
  proof (cases primary)
    case (Inr r)
    then show ?thesis by (simp add: ps sd c3 cache_set_calls dialect_urls_differ)
  next
    case (Inl e)
    show ?thesis
    proof (cases "fallback_authorized e")
      case True
      with Inl show ?thesis
        by (cases secondary) (auto simp: ps sd c4 cache_set_calls dialect_urls_differ)
    next
      case False
      with Inl show ?thesis by (auto simp: ps sd c3 k3 dialect_urls_differ)
    qed
  qed
qed

lemma resolve_example: "resolve_fields example_schema = Inr example_fields"
proof -
  have n: "schema_names example_schema = [JStr ''objet'', JStr ''dateparution'']"
    by (simp add: example_schema_def schema_names_def schema_names_try_def)
  show ?thesis
    unfolding resolve_fields_def Let_def n example_fields_def
    by (simp add: cand_date_def cand_title_def cand_url_def cand_cpv_def cand_dept_def
      cand_buyer_def cand_description_def cand_ref_def cand_serviceCategory_def cand_nature_def
      cand_deadline_def cand_buyerAddress_def cand_budget_def cand_procedure_def
      cand_marketType_def cand_place_def)
qed

lemma fetch_initial:
  "fetch_dataset_schema cfg (failing_once e body) t False initial_state
     = (Inr example_schema, (fetched_state cfg)\<lparr> schema_ts := t \<rparr>)"
  by (simp add: fetch_dataset_schema_def http_get_json_def initial_state_def failing_once_def
      fetched_state_def Let_def)

lemma explore_fails:
  "\<not> cert_verify_failed e \<Longrightarrow>
   try_explore cfg (failing_once e body) a flds (fetched_state cfg)
     = (Inl e, (fetched_state cfg)\<lparr> http_calls := [schema_url cfg, build_explore_url cfg (explore_args_of a) flds],
          opened := 2 \<rparr>)"
  by (simp add: try_explore_def http_get_json_def failing_once_def fetched_state_def
      initial_state_def Let_def)


lemma not_cert_404: "\<not> cert_verify_failed (HTTPError 404 ''Not Found'')"
  by (simp add: cert_verify_failed_def lower_def lower_char_def)


lemma perform_search_explore_first_404_example:
  "PREFER_EXPLORE example_config
   \<and> fst (try_explore example_config
            (failing_once (HTTPError 404 ''Not Found'') records_body)
            example_args example_fields (fetched_state example_config))
       = Inl (HTTPError 404 ''Not Found'')
   \<and> fst (perform_search example_config
            (failing_once (HTTPError 404 ''Not Found'') records_body) 0 0 0
            example_args initial_state)
       = Inr ([JObj [(''recordid'', JStr ''r1'')]], JInt 1,
              build_records_v1_url example_config (records_args_of example_args) example_fields,
              example_fields)
   \<and> http_calls (snd (perform_search example_config
            (failing_once (HTTPError 404 ''Not Found'') records_body) 0 0 0
            example_args initial_state))
       = [schema_url example_config,
          build_explore_url example_config (explore_args_of example_args) example_fields,
          build_records_v1_url example_config (records_args_of example_args) example_fields]
   \<and> results_cache (snd (perform_search example_config
            (failing_once (HTTPError 404 ''Not Found'') records_body) 0 0 0
            example_args initial_state))
         (cache_key example_config example_args example_fields)
       = Some (([JObj [(''recordid'', JStr ''r1'')]], JInt 1,
              build_records_v1_url example_config (records_args_of example_args) example_fields,
              example_fields), 0)"
proof -
  let ?net = "failing_once (HTTPError 404 ''Not Found'') records_body"
  let ?st1 = "fetched_state example_config"
  let ?key = "cache_key example_config example_args example_fields"
  have pe: "PREFER_EXPLORE example_config" by (simp add: example_config_def)
  have f: "fetch_dataset_schema example_config ?net 0 False initial_state
            = (Inr example_schema, ?st1)"
    by (simp add: fetch_initial fetched_state_def)
  have g: "cache_get example_config 0 ?key ?st1 = (None, ?st1)"
    by (simp add: cache_get_def fetched_state_def initial_state_def)
  obtain st3 where p: "try_explore example_config ?net example_args example_fields ?st1
            = (Inl (HTTPError 404 ''Not Found''), st3)"
    and st3: "st3 = ?st1\<lparr> http_calls := [schema_url example_config,
        build_explore_url example_config (explore_args_of example_args) example_fields],
          opened := 2 \<rparr>"
    using explore_fails[OF not_cert_404] by blast
  define st4 where "st4 = st3\<lparr> http_calls := http_calls st3 @
      [build_records_v1_url example_config (records_args_of example_args) example_fields],
      opened := 3 \<rparr>"
  have s: "try_records_v1 example_config ?net example_args example_fields st3
      = (Inr ([JObj [(''recordid'', JStr ''r1'')]], JInt 1,
              build_records_v1_url example_config (records_args_of example_args) example_fields,
              example_fields), st4)"
    by (simp add: st3 st4_def try_records_v1_def http_get_json_def failing_once_def fetched_state_def
      initial_state_def Let_def unpack_response_def records_body_def)
  note main = perform_search_explore_first_cases[OF pe f resolve_example g p s, of 0, simplified]
  have A: "http_calls (snd (perform_search example_config ?net 0 0 0 example_args initial_state))
      = http_calls ?st1 @ [build_explore_url example_config (explore_args_of example_args) example_fields,
          build_records_v1_url example_config (records_args_of example_args) example_fields]"
    using main by blast
  have B: "perform_search example_config ?net 0 0 0 example_args initial_state
      = (Inr ([JObj [(''recordid'', JStr ''r1'')]], JInt 1,
              build_records_v1_url example_config (records_args_of example_args) example_fields,
              example_fields),
         cache_set 0 ?key ([JObj [(''recordid'', JStr ''r1'')]], JInt 1,
              build_records_v1_url example_config (records_args_of example_args) example_fields,
              example_fields) st4)"
    using main by blast
  have C: "http_calls ?st1 = [schema_url example_config]"
    by (simp add: fetched_state_def initial_state_def)
  show ?thesis
    using pe p A C by (simp add: B cache_set_def)
qed

lemma explore_first_other_error:
  assumes nc: "\<not> cert_verify_failed (OtherError m)"
  shows "perform_search example_config (failing_once (OtherError m) records_body) 0 0 0
           example_args initial_state
         = (Inl (OtherError m),
            (fetched_state example_config)\<lparr> http_calls :=
               [schema_url example_config,
                build_explore_url example_config (explore_args_of example_args) example_fields],
               opened := 2 \<rparr>)"
proof -
  let ?net = "failing_once (OtherError m) records_body"
  let ?st1 = "fetched_state example_config"
  let ?key = "cache_key example_config example_args example_fields"
  have pe: "PREFER_EXPLORE example_config" by (simp add: example_config_def)
  have f: "fetch_dataset_schema example_config ?net 0 False initial_state
            = (Inr example_schema, ?st1)"
    by (simp add: fetch_initial fetched_state_def)
  have g: "cache_get example_config 0 ?key ?st1 = (None, ?st1)"
    by (simp add: cache_get_def fetched_state_def initial_state_def)
  note p = explore_fails[OF nc, of example_config records_body example_args example_fields]
  obtain secondary st4 where s: "try_records_v1 example_config ?net example_args example_fields
      (?st1\<lparr> http_calls :=
               [schema_url example_config,
                build_explore_url example_config (explore_args_of example_args) example_fields],
               opened := 2 \<rparr>) = (secondary, st4)"
    by (meson surj_pair)
  show ?thesis
    unfolding perform_search_miss[OF f resolve_example g]
      search_dialects_explore_first[OF pe p s]
    by simp
qed

text \<open>
  Claim C1. Evaluated on a network whose Explore request ends in a read timeout
  (\<open>TimeoutError\<close>, which \<open>urlopen\<close> does not wrap in a \<open>URLError\<close>), and on one
  whose Explore body is not UTF-8 (\<open>UnicodeDecodeError\<close> from \<open>data.decode\<close>):
  \<open>perform_search\<close> raises that exception after the catalog and the Explore requests,
  with no Records v1 request, although the Records request would have answered.
\<close>

theorem perform_search_explore_first_uncaught_failure:
  "fst (perform_search example_config (failing_once (OtherError ''TimeoutError'') records_body)
          0 0 0 example_args initial_state)
     = Inl (OtherError ''TimeoutError'')
   \<and> http_calls (snd (perform_search example_config
          (failing_once (OtherError ''TimeoutError'') records_body) 0 0 0 example_args
          initial_state))
     = [schema_url example_config,
        build_explore_url example_config (explore_args_of example_args) example_fields]
   \<and> fst (perform_search example_config
          (failing_once (OtherError ''UnicodeDecodeError'') records_body)
          0 0 0 example_args initial_state)
     = Inl (OtherError ''UnicodeDecodeError'')
   \<and> http_calls (snd (perform_search example_config
          (failing_once (OtherError ''UnicodeDecodeError'') records_body) 0 0 0 example_args
          initial_state))
     = [schema_url example_config,
        build_explore_url example_config (explore_args_of example_args) example_fields]
   \<and> fst (try_records_v1 example_config
          (failing_once (OtherError ''TimeoutError'') records_body) example_args example_fields
          ((fetched_state example_config)\<lparr> http_calls :=
               [schema_url example_config,
                build_explore_url example_config (explore_args_of example_args) example_fields],
               opened := 2 \<rparr>))
     = Inr ([JObj [(''recordid'', JStr ''r1'')]], JInt 1,
            build_records_v1_url example_config (records_args_of example_args) example_fields,
            example_fields)"
proof -
  have t: "\<not> cert_verify_failed (OtherError ''TimeoutError'')"
    by (simp add: cert_verify_failed_def lower_def lower_char_def)
  have u: "\<not> cert_verify_failed (OtherError ''UnicodeDecodeError'')"
    by (simp add: cert_verify_failed_def lower_def lower_char_def)
  have v: "fst (try_records_v1 example_config
          (failing_once (OtherError ''TimeoutError'') records_body) example_args example_fields
          ((fetched_state example_config)\<lparr> http_calls :=
               [schema_url example_config,
                build_explore_url example_config (explore_args_of example_args) example_fields],
               opened := 2 \<rparr>))
     = Inr ([JObj [(''recordid'', JStr ''r1'')]], JInt 1,
            build_records_v1_url example_config (records_args_of example_args) example_fields,
            example_fields)"
    by (simp add: try_records_v1_def http_get_json_def failing_once_def fetched_state_def
      initial_state_def Let_def unpack_response_def records_body_def)
  show ?thesis
    by (simp add: explore_first_other_error[OF t] explore_first_other_error[OF u] v)
qed






lemma cache_get_hit:
  "results_cache st key = Some (v, ts) \<Longrightarrow> now - ts \<le> real_of_int (RESULTS_CACHE_TTL_SECONDS cfg)
     \<Longrightarrow> cache_get cfg now key st = (Some v, st)"
  by (simp add: cache_get_def)

lemma cache_get_expired:
  "results_cache st key = Some (v, ts) \<Longrightarrow> now - ts > real_of_int (RESULTS_CACHE_TTL_SECONDS cfg)
     \<Longrightarrow> cache_get cfg now key st = (None, st\<lparr> results_cache := (results_cache st)(key := None) \<rparr>)"
  by (simp add: cache_get_def)

lemma fetch_fresh:
  "truthy (schema_value st) \<Longrightarrow> now - schema_ts st < real_of_int SCHEMA_TTL_SECONDS
     \<Longrightarrow> fetch_dataset_schema cfg net now False st = (Inr (schema_value st), st)"
  by (simp add: fetch_dataset_schema_def)

text \<open>
  Claim C6. A lookup of a stored entry whose age is at most the TTL returns the stored tuple
  and leaves the state as it is; \<open>perform_search\<close> then returns that tuple in the state
  the schema step left, so no request follows the lookup, and when the schema cache is fresh
  the whole call leaves the state, its request log included, untouched. A lookup of an
  entry whose age exceeds the TTL removes the entry and returns a miss. \<open>_cache_set\<close>
  stores the value with the current time whatever the cache held, and makes no request.
\<close>

theorem result_cache_contract:
  "(results_cache st key = Some (v, ts) \<and> now - ts \<le> real_of_int (RESULTS_CACHE_TTL_SECONDS cfg)
      \<longrightarrow> cache_get cfg now key st = (Some v, st))
   \<and> (fetch_dataset_schema cfg net t1 False st = (Inr schema, st1)
        \<and> resolve_fields schema = Inr flds
        \<and> results_cache st1 (cache_key cfg a flds) = Some (v, ts)
        \<and> t2 - ts \<le> real_of_int (RESULTS_CACHE_TTL_SECONDS cfg)
      \<longrightarrow> perform_search cfg net t1 t2 t3 a st = (Inr v, st1))
   \<and> (truthy (schema_value st) \<and> t1 - schema_ts st < real_of_int SCHEMA_TTL_SECONDS
        \<and> resolve_fields (schema_value st) = Inr flds
        \<and> results_cache st (cache_key cfg a flds) = Some (v, ts)
        \<and> t2 - ts \<le> real_of_int (RESULTS_CACHE_TTL_SECONDS cfg)
      \<longrightarrow> perform_search cfg net t1 t2 t3 a st = (Inr v, st))
   \<and> (results_cache st key = Some (v, ts) \<and> now - ts > real_of_int (RESULTS_CACHE_TTL_SECONDS cfg)
      \<longrightarrow> cache_get cfg now key st
            = (None, st\<lparr> results_cache := (results_cache st)(key := None) \<rparr>))
   \<and> results_cache (cache_set now key v st) = (results_cache st)(key \<mapsto> (v, now))
   \<and> http_calls (cache_set now key v st) = http_calls st
   \<and> opened (cache_set now key v st) = opened st"
proof (intro conjI impI)
  assume "results_cache st key = Some (v, ts) \<and> now - ts \<le> real_of_int (RESULTS_CACHE_TTL_SECONDS cfg)"
  then show "cache_get cfg now key st = (Some v, st)" by (simp add: cache_get_hit)
next
  assume h: "fetch_dataset_schema cfg net t1 False st = (Inr schema, st1)
        \<and> resolve_fields schema = Inr flds
        \<and> results_cache st1 (cache_key cfg a flds) = Some (v, ts)
        \<and> t2 - ts \<le> real_of_int (RESULTS_CACHE_TTL_SECONDS cfg)"
  then have "cache_get cfg t2 (cache_key cfg a flds) st1 = (Some v, st1)"
    by (simp add: cache_get_hit)
  with h show "perform_search cfg net t1 t2 t3 a st = (Inr v, st1)"
    by (simp add: perform_search_def Let_def)
next
  assume h: "truthy (schema_value st) \<and> t1 - schema_ts st < real_of_int SCHEMA_TTL_SECONDS
        \<and> resolve_fields (schema_value st) = Inr flds
        \<and> results_cache st (cache_key cfg a flds) = Some (v, ts)
        \<and> t2 - ts \<le> real_of_int (RESULTS_CACHE_TTL_SECONDS cfg)"
  then have f: "fetch_dataset_schema cfg net t1 False st = (Inr (schema_value st), st)"
    by (simp add: fetch_fresh)
  from h have "cache_get cfg t2 (cache_key cfg a flds) st = (Some v, st)"
    by (simp add: cache_get_hit)
  with h f show "perform_search cfg net t1 t2 t3 a st = (Inr v, st)"
    by (simp add: perform_search_def Let_def)
next
  assume "results_cache st key = Some (v, ts) \<and> now - ts > real_of_int (RESULTS_CACHE_TTL_SECONDS cfg)"
  then show "cache_get cfg now key st
            = (None, st\<lparr> results_cache := (results_cache st)(key := None) \<rparr>)"
    by (simp add: cache_get_expired)
qed (simp_all add: cache_set_def)

lemma warm_truthy: "truthy (schema_value warm_state)"
  by (simp add: warm_state_def example_schema_def)

theorem result_cache_contract_witness:
  "results_cache cached_state (cache_key example_config example_args example_fields)
      = Some (example_result, 100)
   \<and> truthy (schema_value cached_state)
   \<and> (130::real) - schema_ts cached_state < real_of_int SCHEMA_TTL_SECONDS
   \<and> (130::real) - 100 \<le> real_of_int (RESULTS_CACHE_TTL_SECONDS example_config)
   \<and> perform_search example_config (always_failing (URLError ''unreachable'')) 130 130 130
        example_args cached_state = (Inr example_result, cached_state)
   \<and> (161::real) - 100 > real_of_int (RESULTS_CACHE_TTL_SECONDS example_config)
   \<and> cache_get example_config 161 (cache_key example_config example_args example_fields)
        cached_state = (None, warm_state)"
proof -
  let ?key = "cache_key example_config example_args example_fields"
  have k: "results_cache cached_state ?key = Some (example_result, 100)"
    by (simp add: cached_state_def)
  have sv: "schema_value cached_state = example_schema"
    by (simp add: cached_state_def warm_state_def)
  have t: "truthy (schema_value cached_state)"
    by (simp add: sv example_schema_def)
  have ts: "(130::real) - schema_ts cached_state < real_of_int SCHEMA_TTL_SECONDS"
    by (simp add: cached_state_def warm_state_def initial_state_def SCHEMA_TTL_SECONDS_def)
  have r: "resolve_fields (schema_value cached_state) = Inr example_fields"
    by (simp add: sv resolve_example)
  have a1: "(130::real) - 100 \<le> real_of_int (RESULTS_CACHE_TTL_SECONDS example_config)"
    by (simp add: example_config_def)
  have a2: "(161::real) - 100 > real_of_int (RESULTS_CACHE_TTL_SECONDS example_config)"
    by (simp add: example_config_def)
  have w: "cached_state\<lparr> results_cache := (results_cache cached_state)(?key := None) \<rparr>
      = warm_state"
    by (simp add: cached_state_def warm_state_def initial_state_def)
  note main = result_cache_contract[of cached_state ?key example_result 100 _ example_config]
  from main[of 130 _ 130 _ _ example_fields example_args 130]
  have P: "perform_search example_config (always_failing (URLError ''unreachable'')) 130 130 130
        example_args cached_state = (Inr example_result, cached_state)"
    using k t ts r a1 by blast
  from main[of 161] have G: "cache_get example_config 161 ?key cached_state = (None, warm_state)"
    using k a2 w by simp
  show ?thesis using k t ts a1 a2 P G by simp
qed

section \<open>Properties of the schema store\<close>

text \<open>
  Claim C10. When \<open>fetch_dataset_schema\<close> goes to the network and \<open>_http_get_json\<close>
  raises, the same exception leaves \<open>fetch_dataset_schema\<close> and the schema cache keeps its
  value and its timestamp, so that a later non-forced call within the TTL of a cached
  snapshot returns that snapshot; the value and the timestamp are replaced together, and
  only when the fetch has returned a parsed body.
\<close>

theorem fetch_dataset_schema_failure_keeps_cache:
  "force_refresh \<or> \<not> truthy (schema_value st)
     \<or> \<not> now - schema_ts st < real_of_int SCHEMA_TTL_SECONDS
   \<longrightarrow>
   (case http_get_json cfg net (schema_url cfg) st of
      (Inl e, st1) \<Rightarrow>
        fetch_dataset_schema cfg net now force_refresh st = (Inl e, st1)
        \<and> schema_value st1 = schema_value st
        \<and> schema_ts st1 = schema_ts st
        \<and> (\<forall>net2 now2.
              truthy (schema_value st) \<and> now2 - schema_ts st < real_of_int SCHEMA_TTL_SECONDS
              \<longrightarrow> fetch_dataset_schema cfg net2 now2 False st1 = (Inr (schema_value st), st1))
    | (Inr schema, st1) \<Rightarrow>
        fetch_dataset_schema cfg net now force_refresh st
          = (Inr schema, st1\<lparr> schema_value := schema, schema_ts := now \<rparr>))"
proof (intro impI)
  assume miss: "force_refresh \<or> \<not> truthy (schema_value st)
     \<or> \<not> now - schema_ts st < real_of_int SCHEMA_TTL_SECONDS"
  obtain out st1 where h: "http_get_json cfg net (schema_url cfg) st = (out, st1)"
    by (cases "http_get_json cfg net (schema_url cfg) st") auto
  have v: "schema_value st1 = schema_value st" and t: "schema_ts st1 = schema_ts st"
    using http_get_json_cache(2,3)[of cfg net "schema_url cfg" st] h by simp_all
  show "(case http_get_json cfg net (schema_url cfg) st of
      (Inl e, st1) \<Rightarrow>
        fetch_dataset_schema cfg net now force_refresh st = (Inl e, st1)
        \<and> schema_value st1 = schema_value st
        \<and> schema_ts st1 = schema_ts st
        \<and> (\<forall>net2 now2.
              truthy (schema_value st) \<and> now2 - schema_ts st < real_of_int SCHEMA_TTL_SECONDS
              \<longrightarrow> fetch_dataset_schema cfg net2 now2 False st1 = (Inr (schema_value st), st1))
    | (Inr schema, st1) \<Rightarrow>
        fetch_dataset_schema cfg net now force_refresh st
          = (Inr schema, st1\<lparr> schema_value := schema, schema_ts := now \<rparr>))"
  proof (cases out)
    case (Inl e)
    have "fetch_dataset_schema cfg net now force_refresh st = (Inl e, st1)"
      using miss h Inl by (auto simp: fetch_dataset_schema_def)
    moreover have "\<forall>net2 now2.
              truthy (schema_value st) \<and> now2 - schema_ts st < real_of_int SCHEMA_TTL_SECONDS
              \<longrightarrow> fetch_dataset_schema cfg net2 now2 False st1 = (Inr (schema_value st), st1)"
      using fetch_fresh[of st1] v t by auto
    ultimately show ?thesis using h Inl v t by simp
  next
    case (Inr schema)
    have "fetch_dataset_schema cfg net now force_refresh st
          = (Inr schema, st1\<lparr> schema_value := schema, schema_ts := now \<rparr>)"
      using miss h Inr by (auto simp: fetch_dataset_schema_def)
    then show ?thesis using h Inr by simp
  qed
qed

theorem fetch_dataset_schema_failure_keeps_cache_witness:
  "truthy (schema_value warm_state)
   \<and> fst (http_get_json example_config (always_failing (URLError ''unreachable''))
            (schema_url example_config) warm_state) = Inl (URLError ''unreachable'')
   \<and> fst (fetch_dataset_schema example_config (always_failing (URLError ''unreachable'')) 10 True
            warm_state) = Inl (URLError ''unreachable'')
   \<and> schema_value (snd (fetch_dataset_schema example_config
            (always_failing (URLError ''unreachable'')) 10 True warm_state)) = example_schema
   \<and> schema_ts (snd (fetch_dataset_schema example_config
            (always_failing (URLError ''unreachable'')) 10 True warm_state)) = 0
   \<and> fst (fetch_dataset_schema example_config (always_failing (URLError ''unreachable'')) 20 False
            (snd (fetch_dataset_schema example_config
               (always_failing (URLError ''unreachable'')) 10 True warm_state)))
       = Inr example_schema"
proof -
  let ?net = "always_failing (URLError ''unreachable'')"
  define st1 where "st1 = warm_state\<lparr> http_calls := [schema_url example_config], opened := 1 \<rparr>"
  have nc: "\<not> cert_verify_failed (URLError ''unreachable'')"
    by (simp add: cert_verify_failed_def lower_def lower_char_def)
  have h: "http_get_json example_config ?net (schema_url example_config) warm_state
      = (Inl (URLError ''unreachable''), st1)"
    using nc by (simp add: http_get_json_def always_failing_def Let_def st1_def warm_state_def
        initial_state_def)
  have sv: "schema_value warm_state = example_schema" "schema_ts warm_state = 0"
    by (simp_all add: warm_state_def initial_state_def)
  have fresh: "(20::real) - schema_ts warm_state < real_of_int SCHEMA_TTL_SECONDS"
    by (simp add: sv SCHEMA_TTL_SECONDS_def)
  note main = fetch_dataset_schema_failure_keeps_cache[of True warm_state 10 example_config ?net, simplified h, simplified]
  have F: "fetch_dataset_schema example_config ?net 10 True warm_state
      = (Inl (URLError ''unreachable''), st1)"
    using main by blast
  have L: "fetch_dataset_schema example_config ?net 20 False st1 = (Inr (schema_value warm_state), st1)"
    using main warm_truthy fresh by blast
  have U: "schema_value st1 = schema_value warm_state" "schema_ts st1 = schema_ts warm_state"
    using main by blast+
  show ?thesis
    using warm_truthy by (simp add: h F L U sv)
qed

lemmas eval_args = example_args_def explore_args_of_def training_whitelist_def
  training_service_cat_def example_fields_def

lemmas eval_where = explore_where_def where_cpv_whitelist_def where_cpv_prefix_def
  where_dept_def where_buyer_def where_service_category_def where_nature_def where_date_def
  date_field_def or_default_def safe_like_fragment_def double_quotes_def strip_def is_space_def
  Let_def

section \<open>Properties of the query builder and of the cache key\<close>

text \<open>
  Claim C3. Evaluated on a request with a quote in a department code, in the buyer and in
  the lower date bound, the filter of \<open>build_explore_url\<close> holds the buyer with its quote
  doubled, and the department code and the date bound with their quotes as they came.
\<close>

theorem explore_where_unescaped_dept_and_date:
  "explore_where (explore_args_of quoted_args) example_fields
     = [''(departement IN ('7'5'))'',
        ''string(acheteur) LIKE '%d'' @ squote @ squote @ ''Issy%'' @ squote,
        ''dateparution >= '2024-01-01' OR '1'='1'' @ squote]"
  by (simp add: quoted_args_def eval_args eval_where)

lemma explore_order_by_of_args:
  "explore_order_by (explore_args_of a) flds = ''-'' @ date_field flds"
  by (simp add: explore_order_by_def explore_args_of_def)

text \<open>
  Claim C4. Evaluated on a request with \<open>sort=deadline\<close> and a resolved deadline field:
  given the requested sort, \<open>build_explore_url\<close> would order by the deadline field, but
  the arguments \<open>_try_explore\<close> passes carry no sort, and the URL that is sent orders by
  the date field.
\<close>

theorem try_explore_url_ignores_sort:
  "arg_sort deadline_args = Some ''deadline''
   \<and> deadline example_fields = ''date_limite_remise_offres''
   \<and> explore_order_by ((explore_args_of deadline_args)\<lparr> ex_sort := arg_sort deadline_args \<rparr>)
        example_fields = ''-date_limite_remise_offres''
   \<and> explore_params example_config (explore_args_of deadline_args) example_fields
       = [(''q'', ''formation''), (''order_by'', ''-dateparution''), (''limit'', ''20''),
          (''offset'', ''0'')]
   \<and> build_explore_url example_config (explore_args_of deadline_args) example_fields
       = ''https://boamp-datadila.opendatasoft.com/api/explore/v2.1/catalog/datasets/boamp/records?q=formation&order_by=-dateparution&limit=20&offset=0''"
proof -
  have w: "explore_where (explore_args_of deadline_args) example_fields = []"
    by (simp add: deadline_args_def eval_args eval_where)
  have p: "explore_params example_config (explore_args_of deadline_args) example_fields
       = [(''q'', ''formation''), (''order_by'', ''-dateparution''), (''limit'', ''20''),
          (''offset'', ''0'')]"
    unfolding explore_params_def w explore_order_by_of_args
    by (simp add: deadline_args_def eval_args date_field_def or_default_def strip_def is_space_def
        str_int_def str_nat.simps apikey_params_def example_config_def)
  have u: "urlencode [(''q'', ''formation''), (''order_by'', ''-dateparution''), (''limit'', ''20''),
          (''offset'', ''0'')] = ''q=formation&order_by=-dateparution&limit=20&offset=0''"
    by (simp add: urlencode_def quote_plus_def always_safe_def)
  have b: "build_explore_url example_config (explore_args_of deadline_args) example_fields
       = ''https://boamp-datadila.opendatasoft.com/api/explore/v2.1/catalog/datasets/boamp/records?q=formation&order_by=-dateparution&limit=20&offset=0''"
    unfolding build_explore_url_def p u
    by (simp add: example_config_def rstrip_slash_def)
  have o: "explore_order_by ((explore_args_of deadline_args)\<lparr> ex_sort := arg_sort deadline_args \<rparr>)
        example_fields = ''-date_limite_remise_offres''"
    by (simp add: explore_order_by_def deadline_args_def eval_args)
  show ?thesis using p b o by (simp add: deadline_args_def example_fields_def)
qed

lemma cache_key_dept_order:
  "mset ds = mset ds2 \<Longrightarrow>
     cache_key cfg (a\<lparr> arg_dept_codes := ds \<rparr>) flds = cache_key cfg (a\<lparr> arg_dept_codes := ds2 \<rparr>) flds"
proof -
  assume "mset ds = mset ds2"
  then have "sort ds = sort ds2" by (simp add: properties_for_sort)
  then show ?thesis by (simp add: cache_key_def cache_key_dict_def)
qed

lemma nature_arr_differ:
  "json_dumps (JArr (map JStr [''AppelOffre'', ''Attribution'']))
     \<noteq> json_dumps (JArr (map JStr [''Attribution'', ''AppelOffre'']))"
  by (simp add: json_dumps_str_def json_escape_char_def)

text \<open>
  Claim C5. Evaluated on two requests that differ only in the order of the same two
  \<open>nature\<close> values, the two cache keys differ.
\<close>

theorem cache_key_depends_on_nature_order:
  "cache_key example_config nature_ab example_fields
     \<noteq> cache_key example_config nature_ba example_fields"
  by (simp add: cache_key_def cache_key_dict_def fields_dict_def nature_ab_def nature_ba_def
      example_args_def example_fields_def example_config_def json_dumps_str_def
      json_escape_char_def str_int_def str_nat.simps)

lemma rstrip_slash_id: "\<not> endswith s ''/'' \<Longrightarrow> rstrip_slash s = s"
  by (cases "rev s") (auto simp: rstrip_slash_def endswith_def dest: arg_cong[where f = rev])

section \<open>Properties of the record URL normalisation\<close>

text \<open>
  Claim C9. When the host of the base ends with \<open>boamp.fr\<close>, a reference is given, and the
  raw URL is absent, or resolves to the base followed by a slash, or resolves to a URL that
  contains \<open>/pages/entreprise-accueil\<close>, the result is the base without trailing slashes
  followed by \<open>/avis/detail/\<close> and the reference. When the raw URL, the record id and
  the reference are all absent, the result is the base without trailing slashes. A base
  that does not end with a slash, as the callers pass it, is its own stripped form.
\<close>

theorem normalize_record_url_detail:
  "(hostname_of (rstrip_slash base) = Inr (Some h) \<and> endswith h ''boamp.fr''
      \<and> reference = Some r \<and> r \<noteq> []
      \<and> (\<not> present raw_url
          \<or> urljoin (rstrip_slash base @ ''/'') (the raw_url) = Inr (rstrip_slash base @ ''/'')
          \<or> (\<exists>href. urljoin (rstrip_slash base @ ''/'') (the raw_url) = Inr href
                \<and> contains href ''/pages/entreprise-accueil''))
     \<longrightarrow> normalize_record_url hostname_of urljoin base dataset_id raw_url reference record_id
           = rstrip_slash base @ ''/avis/detail/'' @ r)
   \<and> (\<not> present raw_url \<and> \<not> present record_id \<and> \<not> present reference
     \<longrightarrow> normalize_record_url hostname_of urljoin base dataset_id raw_url reference record_id
           = rstrip_slash base)
   \<and> (\<not> endswith base ''/'' \<longrightarrow> rstrip_slash base = base)"
proof (intro conjI impI)
  assume h: "hostname_of (rstrip_slash base) = Inr (Some h) \<and> endswith h ''boamp.fr''
      \<and> reference = Some r \<and> r \<noteq> []
      \<and> (\<not> present raw_url
          \<or> urljoin (rstrip_slash base @ ''/'') (the raw_url) = Inr (rstrip_slash base @ ''/'')
          \<or> (\<exists>href. urljoin (rstrip_slash base @ ''/'') (the raw_url) = Inr href
                \<and> contains href ''/pages/entreprise-accueil''))"
  then consider (absent) "\<not> present raw_url"
    | (root) "present raw_url"
        "urljoin (rstrip_slash base @ ''/'') (the raw_url) = Inr (rstrip_slash base @ ''/'')"
    | (landing) href where "present raw_url"
        "urljoin (rstrip_slash base @ ''/'') (the raw_url) = Inr href"
        "contains href ''/pages/entreprise-accueil''"
    by blast
  then show "normalize_record_url hostname_of urljoin base dataset_id raw_url reference record_id
           = rstrip_slash base @ ''/avis/detail/'' @ r"
  proof cases
    case absent
    with h show ?thesis by (simp add: normalize_record_url_def Let_def)
  next
    case root
    with h show ?thesis by (simp add: normalize_record_url_def Let_def)
  next
    case landing
    with h show ?thesis by (simp add: normalize_record_url_def Let_def)
  qed
next
  assume "\<not> present raw_url \<and> \<not> present record_id \<and> \<not> present reference"
  then show "normalize_record_url hostname_of urljoin base dataset_id raw_url reference record_id
           = rstrip_slash base"
    by (simp add: normalize_record_url_def Let_def)
next
  assume "\<not> endswith base ''/''"
  then show "rstrip_slash base = base" by (rule rstrip_slash_id)
qed

theorem normalize_record_url_detail_witness:
  "endswith ''www.boamp.fr'' ''boamp.fr''
   \<and> \<not> endswith ''https://www.boamp.fr'' ''/''
   \<and> normalize_record_url (\<lambda>u. Inr (Some ''www.boamp.fr'')) (\<lambda>b u. Inr (rstrip_slash b @ u))
        ''https://www.boamp.fr'' ''boamp'' None (Some ''24-12345'') (Some ''r1'')
       = ''https://www.boamp.fr/avis/detail/24-12345''
   \<and> contains ''https://www.boamp.fr/pages/entreprise-accueil'' ''/pages/entreprise-accueil''
   \<and> normalize_record_url (\<lambda>u. Inr (Some ''www.boamp.fr'')) (\<lambda>b u. Inr (rstrip_slash b @ u))
        ''https://www.boamp.fr'' ''boamp'' (Some ''/pages/entreprise-accueil'')
        (Some ''24-12345'') (Some ''r1'')
       = ''https://www.boamp.fr/avis/detail/24-12345''
   \<and> normalize_record_url (\<lambda>u. Inr (Some ''www.boamp.fr'')) (\<lambda>b u. Inr (rstrip_slash b @ u))
        ''https://www.boamp.fr'' ''boamp'' None None None
       = ''https://www.boamp.fr''"
proof -
  let ?h = "\<lambda>u::string. (Inr (Some ''www.boamp.fr'') :: exn + string option)"
  let ?j = "\<lambda>(b::string) (u::string). (Inr (rstrip_slash b @ u) :: exn + string)"
  let ?b = "''https://www.boamp.fr''"
  have e: "endswith ''www.boamp.fr'' ''boamp.fr''" by (simp add: endswith_def)
  have n: "\<not> endswith ?b ''/''" by (simp add: endswith_def)
  have rb: "rstrip_slash ?b = ?b"
    using normalize_record_url_detail[of ?h ?b "''www.boamp.fr''" None "''24-12345''" None ?j "''boamp''" None] n
    by blast
  have rb2: "rstrip_slash ''https://www.boamp.fr/'' = ''https://www.boamp.fr''"
    by (simp add: rstrip_slash_def)
  have c: "contains ''https://www.boamp.fr/pages/entreprise-accueil'' ''/pages/entreprise-accueil''"
    by simp
  have a1: "normalize_record_url ?h ?j ?b ''boamp'' None (Some ''24-12345'') (Some ''r1'')
       = rstrip_slash ?b @ ''/avis/detail/'' @ ''24-12345''"
    using normalize_record_url_detail[of ?h ?b "''www.boamp.fr''" "Some ''24-12345''" "''24-12345''" None ?j
        "''boamp''" "Some ''r1''"] e
    by simp
  have a2: "normalize_record_url ?h ?j ?b ''boamp'' (Some ''/pages/entreprise-accueil'')
        (Some ''24-12345'') (Some ''r1'')
       = rstrip_slash ?b @ ''/avis/detail/'' @ ''24-12345''"
    using normalize_record_url_detail[of ?h ?b "''www.boamp.fr''" "Some ''24-12345''" "''24-12345''"
        "Some ''/pages/entreprise-accueil''" ?j "''boamp''" "Some ''r1''"] e c
    by (simp add: rb rb2)
  have a3: "normalize_record_url ?h ?j ?b ''boamp'' None None None = rstrip_slash ?b"
    using normalize_record_url_detail[of ?h ?b "''www.boamp.fr''" None "''24-12345''" None ?j "''boamp''" None]
    by simp
  show ?thesis using e n c a1 a2 a3 by (simp add: rb)
qed

end
